theory Spec2Isabelle
  imports Complex_Main "HOL-Library.Extended_Nat"
begin

section \<open>Errors\<close>

text \<open>
  Every \<^verbatim>\<open>raise\<close> of \<^verbatim>\<open>generalized_series.py\<close> is a value of this type.  The
  strings are the messages of the source; a bare \<^verbatim>\<open>raise ValueError\<close> carries the
  empty message.  \<open>TypeError\<close> is also what the host algebra system raises when a
  conversion into one of its rings fails.
\<close>

datatype error = ZeroDivisionError | ValueError string | TypeError string

definition incompatibility_error :: error where
  "incompatibility_error =
     ValueError ''can only add generalized series if they are \"similar\".''"

definition non_invertible_error :: error where
  "non_invertible_error =
     ValueError ''generalized series involving logarithms are not invertible''"

definition domain_error :: error where
  "domain_error = ValueError ''only nonnegative shifts are allowed''"

definition precision_error :: error where
  "precision_error = ValueError ''insufficient precision''"

definition construction_error :: error where
  "construction_error = ValueError ''ramification must be a positive integer''"

section \<open>The numeric substrate\<close>

text \<open>
  The series classes are written against the polynomial and power series rings of the
  host algebra system, over the rational field.  What the classes use of them is
  modelled here:
  \<^item> a polynomial of \<open>K[x]\<close> is the list of its coefficients by increasing exponent,
    with no trailing zero, so that equal polynomials are equal lists;
  \<^item> a truncated power series is such a list together with its precision \<open>O(x^n)\<close>,
    \<open>\<infinity>\<close> for an exact series; sums and products carry the precision the host
    system gives them;
  \<^item> a tail is a polynomial in \<open>LOG\<close> whose coefficients are power series.
\<close>

subsection \<open>Polynomials over the rationals\<close>

fun strip :: "rat list \<Rightarrow> rat list" where
  "strip [] = []"
| "strip (c # cs) = (let r = strip cs in if r = [] \<and> c = 0 then [] else c # r)"

definition coeff :: "rat list \<Rightarrow> nat \<Rightarrow> rat" where
  "coeff p i = (if i < length p then p ! i else 0)"

definition exponents :: "rat list \<Rightarrow> nat list" where
  "exponents p = filter (\<lambda>i. p ! i \<noteq> 0) [0..<length p]"

text \<open>The degree of the zero polynomial is \<open>-1\<close>.\<close>

definition degree :: "'a list \<Rightarrow> int" where
  "degree p = int (length p) - 1"

fun padd :: "rat list \<Rightarrow> rat list \<Rightarrow> rat list" where
  "padd [] q = q"
| "padd (a # p) [] = a # p"
| "padd (a # p) (b # q) = (a + b) # padd p q"

fun pmul :: "rat list \<Rightarrow> rat list \<Rightarrow> rat list" where
  "pmul [] q = []"
| "pmul (a # p) q = padd (map (\<lambda>b. a * b) q) (0 # pmul p q)"

definition poly_add :: "rat list \<Rightarrow> rat list \<Rightarrow> rat list" where
  "poly_add p q = strip (padd p q)"

definition poly_neg :: "rat list \<Rightarrow> rat list" where
  "poly_neg p = map uminus p"

definition poly_sub :: "rat list \<Rightarrow> rat list \<Rightarrow> rat list" where
  "poly_sub p q = poly_add p (poly_neg q)"

definition poly_scale :: "rat \<Rightarrow> rat list \<Rightarrow> rat list" where
  "poly_scale c p = strip (map (\<lambda>b. c * b) p)"

definition poly_mul :: "rat list \<Rightarrow> rat list \<Rightarrow> rat list" where
  "poly_mul p q = strip (pmul p q)"

text \<open>\<open>p(x^q)\<close>: the coefficient of \<open>x^j\<close> is that of \<open>x^(j/q)\<close> in \<open>p\<close>.\<close>

definition poly_subst_pow :: "nat \<Rightarrow> rat list \<Rightarrow> rat list" where
  "poly_subst_pow q p =
     (if q = 0 then strip [sum_list p]
      else strip (map (\<lambda>j. if q dvd j then coeff p (j div q) else 0)
                      [0..<(length p - 1) * q + 1]))"

text \<open>
  A polynomial built from a dictionary \<open>exponent \<mapsto> coefficient\<close>, given as the list
  of its items in insertion order: a later item with the same key replaces an earlier one.
\<close>

definition from_dict :: "(nat \<times> rat) list \<Rightarrow> rat list" where
  "from_dict kvs =
     (if kvs = [] then []
      else strip (map (\<lambda>j. case map_of (rev kvs) j of None \<Rightarrow> 0 | Some c \<Rightarrow> c)
                      [0..<Suc (fold max (map fst kvs) 0)]))"

text \<open>Membership of a polynomial in the integers: a constant with an integer value.\<close>

definition in_ZZ :: "rat list \<Rightarrow> bool" where
  "in_ZZ p = (case p of [] \<Rightarrow> True | [c] \<Rightarrow> c = of_int \<lfloor>c\<rfloor> | _ \<Rightarrow> False)"

text \<open>The denominator of the fraction \<open>e/r\<close> in lowest terms, and the lcm of a list
  (\<open>1\<close> for the empty list).\<close>

definition den_frac :: "nat \<Rightarrow> nat \<Rightarrow> nat" where
  "den_frac e r = r div gcd e r"

definition lcm_list :: "nat list \<Rightarrow> nat" where
  "lcm_list xs = fold lcm xs 1"

subsection \<open>Truncated power series\<close>

record ps =
  ps_poly :: "rat list"
  ps_prec :: enat

definition truncate :: "enat \<Rightarrow> rat list \<Rightarrow> rat list" where
  "truncate pr f = (case pr of enat n \<Rightarrow> strip (take n f) | \<infinity> \<Rightarrow> strip f)"

definition ps_make :: "rat list \<Rightarrow> enat \<Rightarrow> ps" where
  "ps_make f pr = \<lparr>ps_poly = truncate pr f, ps_prec = pr\<rparr>"

definition ps_zero :: ps where
  "ps_zero = \<lparr>ps_poly = [], ps_prec = \<infinity>\<rparr>"

definition ps_one :: ps where
  "ps_one = \<lparr>ps_poly = [1], ps_prec = \<infinity>\<rparr>"

text \<open>A power series is false (zero) when its polynomial is zero, whatever its precision.\<close>

definition ps_nonzero :: "ps \<Rightarrow> bool" where
  "ps_nonzero c = (ps_poly c \<noteq> [])"

definition low_zeros :: "rat list \<Rightarrow> nat" where
  "low_zeros f = length (takeWhile (\<lambda>a. a = 0) f)"

text \<open>The valuation of \<open>O(x^n)\<close> is \<open>n\<close>, that of the exact zero is \<open>\<infinity>\<close>.\<close>

definition ps_valuation :: "ps \<Rightarrow> enat" where
  "ps_valuation c = (if ps_poly c = [] then ps_prec c else enat (low_zeros (ps_poly c)))"

definition ps_exponents :: "ps \<Rightarrow> nat list" where
  "ps_exponents c = exponents (ps_poly c)"

definition ps_add :: "ps \<Rightarrow> ps \<Rightarrow> ps" where
  "ps_add a b = ps_make (padd (ps_poly a) (ps_poly b)) (min (ps_prec a) (ps_prec b))"

definition ps_neg :: "ps \<Rightarrow> ps" where
  "ps_neg a = \<lparr>ps_poly = poly_neg (ps_poly a), ps_prec = ps_prec a\<rparr>"

text \<open>The precision of a product: \<open>min (prec a + val b) (prec b + val a)\<close>, an exact
  factor imposing no bound.\<close>

definition mul_prec :: "ps \<Rightarrow> ps \<Rightarrow> enat" where
  "mul_prec a b =
     (if ps_prec a = \<infinity> then
        (if ps_prec b = \<infinity> then \<infinity> else ps_prec b + ps_valuation a)
      else if ps_prec b = \<infinity> then ps_prec a + ps_valuation b
      else min (ps_prec b + ps_valuation a) (ps_prec a + ps_valuation b))"

definition ps_mul :: "ps \<Rightarrow> ps \<Rightarrow> ps" where
  "ps_mul a b = ps_make (pmul (ps_poly a) (ps_poly b)) (mul_prec a b)"

definition ps_scale :: "rat \<Rightarrow> ps \<Rightarrow> ps" where
  "ps_scale c a = ps_mul \<lparr>ps_poly = strip [c], ps_prec = \<infinity>\<rparr> a"

text \<open>\<open>c // x^k\<close>: the series shifted down by \<open>k\<close>, its precision with it.\<close>

definition ps_shift_down :: "nat \<Rightarrow> ps \<Rightarrow> ps" where
  "ps_shift_down k c = \<lparr>ps_poly = drop k (ps_poly c), ps_prec = ps_prec c - enat k\<rparr>"

text \<open>\<open>c(x^q)\<close>: the precision is multiplied by \<open>q\<close>.\<close>

definition ps_subst_pow :: "nat \<Rightarrow> ps \<Rightarrow> ps" where
  "ps_subst_pow q c = \<lparr>ps_poly = poly_subst_pow q (ps_poly c), ps_prec = ps_prec c * enat q\<rparr>"

text \<open>A power series built from a dictionary is exact.\<close>

definition ps_from_dict :: "(nat \<times> rat) list \<Rightarrow> ps" where
  "ps_from_dict kvs = \<lparr>ps_poly = from_dict kvs, ps_prec = \<infinity>\<rparr>"

text \<open>
  The inverse of a unit: \<open>b\<^sub>0 = 1/a\<^sub>0\<close> and
  \<open>b\<^sub>n = - (a\<^sub>1 b\<^sub>n\<^sub>-\<^sub>1 + \<dots> + a\<^sub>n b\<^sub>0) / a\<^sub>0\<close>, to the precision of the
  series; an exact series of positive degree is inverted to the default precision 20 of
  the ring, an exact constant exactly.
\<close>

fun inv_coeffs :: "rat list \<Rightarrow> nat \<Rightarrow> rat list" where
  "inv_coeffs f 0 = []"
| "inv_coeffs f (Suc n) =
     (let bs = inv_coeffs f n
      in bs @ [(if n = 0 then 1
                else - (\<Sum>i\<leftarrow>[1..<Suc n]. coeff f i * coeff bs (n - i))) / coeff f 0])"

definition default_prec :: nat where
  "default_prec = 20"

definition ps_inverse :: "ps \<Rightarrow> ps" where
  "ps_inverse c =
     (case ps_prec c of
        enat n \<Rightarrow> \<lparr>ps_poly = strip (inv_coeffs (ps_poly c) n), ps_prec = enat n\<rparr>
      | \<infinity> \<Rightarrow>
          if degree (ps_poly c) > 0
          then \<lparr>ps_poly = strip (inv_coeffs (ps_poly c) default_prec),
                ps_prec = enat default_prec\<rparr>
          else \<lparr>ps_poly = strip [1 / coeff (ps_poly c) 0], ps_prec = \<infinity>\<rparr>)"

text \<open>
  Equality of power series in the host system: two series are equal when they agree
  on all coefficients below the minimum of their precisions.
\<close>

definition ps_eq :: "ps \<Rightarrow> ps \<Rightarrow> bool" where
  "ps_eq a b =
     (let pr = min (ps_prec a) (ps_prec b)
      in truncate pr (ps_poly a) = truncate pr (ps_poly b))"

subsection \<open>Polynomials in \<open>LOG\<close> over the power series\<close>

fun lstrip :: "ps list \<Rightarrow> ps list" where
  "lstrip [] = []"
| "lstrip (c # cs) = (let r = lstrip cs in if r = [] \<and> ps_poly c = [] then [] else c # r)"

definition coefficients :: "ps list \<Rightarrow> ps list" where
  "coefficients t = filter ps_nonzero t"

fun lpadd :: "ps list \<Rightarrow> ps list \<Rightarrow> ps list" where
  "lpadd [] q = q"
| "lpadd (a # p) [] = a # p"
| "lpadd (a # p) (b # q) = ps_add a b # lpadd p q"

fun lpmul :: "ps list \<Rightarrow> ps list \<Rightarrow> ps list" where
  "lpmul [] q = []"
| "lpmul (a # p) q = lpadd (map (ps_mul a) q) (ps_zero # lpmul p q)"

definition lp_add :: "ps list \<Rightarrow> ps list \<Rightarrow> ps list" where
  "lp_add p q = lstrip (lpadd p q)"

definition lp_neg :: "ps list \<Rightarrow> ps list" where
  "lp_neg p = map ps_neg p"

definition lp_mul :: "ps list \<Rightarrow> ps list \<Rightarrow> ps list" where
  "lp_mul p q = (if p = [] \<or> q = [] then [] else lstrip (lpmul p q))"

text \<open>\<open>map_coefficients\<close> applies the function to the nonzero coefficients; the others
  become the exact zero.\<close>

definition map_coefficients :: "(ps \<Rightarrow> ps) \<Rightarrow> ps list \<Rightarrow> ps list" where
  "map_coefficients f t = lstrip (map (\<lambda>c. if ps_nonzero c then f c else ps_zero) t)"

text \<open>\<open>t(e*LOG)\<close>: the coefficient of \<open>LOG^i\<close> is multiplied by \<open>e^i\<close>.\<close>

definition lp_scale_var :: "rat \<Rightarrow> ps list \<Rightarrow> ps list" where
  "lp_scale_var e t = lstrip (map (\<lambda>i. ps_scale (e ^ i) (t ! i)) [0..<length t])"

definition lp_eq :: "ps list \<Rightarrow> ps list \<Rightarrow> bool" where
  "lp_eq p q = (length p = length q \<and> list_all2 ps_eq p q)"

text \<open>
  The inverse of a tail.  A constant whose coefficient is a unit of the power series
  ring is inverted there; the inverse of anything else lies in the fraction field and
  does not convert back into the tail ring.
\<close>

definition lp_inverse :: "ps list \<Rightarrow> error + ps list" where
  "lp_inverse t =
     (case t of
        [c] \<Rightarrow> if ps_valuation c = 0 then Inr [ps_inverse c]
               else Inl (TypeError ''denominator must be a unit'')
      | _ \<Rightarrow> Inl (TypeError ''denominator must be a unit''))"


definition lp_make_monic :: "ps list \<Rightarrow> ps list" where
  "lp_make_monic p =
     (let c = hd (filter (\<lambda>a. a \<noteq> 0) (ps_poly (last p)))
      in map (ps_scale (1 / c)) p)"

section \<open>Continuous generalized series\<close>

text \<open>
  An object of \<^verbatim>\<open>ContinuousGeneralizedSeries\<close> holds the three private fields
  \<^verbatim>\<open>__ramification\<close>, \<^verbatim>\<open>__exp\<close> and \<^verbatim>\<open>__tail\<close>.
\<close>

record cgs =
  c_ramification :: nat
  c_exp :: "rat list"
  c_tail :: "ps list"

definition cgs_zero :: cgs where
  "cgs_zero = \<lparr>c_ramification = 1, c_exp = [], c_tail = []\<rparr>"

subsection \<open>The normalizing constructor\<close>

definition min_valuation :: "ps list \<Rightarrow> nat" where
  "min_valuation p = min_list (map (\<lambda>c. low_zeros (ps_poly c)) (coefficients p))"

text \<open>
  \<^verbatim>\<open>new_ram = lcm([(e/ramification).denominator() for e in exp.exponents()])\<close>, and, only
  if that is smaller than the ramification, the same over the exponents of every nonzero
  coefficient of the tail.
\<close>

definition new_ramification :: "nat \<Rightarrow> rat list \<Rightarrow> ps list \<Rightarrow> nat" where
  "new_ramification r e p =
     (let new_ram = lcm_list (map (\<lambda>k. den_frac k r) (exponents e))
      in if new_ram < r
         then fold (\<lambda>c nr. lcm_list (nr # map (\<lambda>k. den_frac k r) (ps_exponents c)))
                   (coefficients p) new_ram
         else new_ram)"

text \<open>
  The re-expression in \<open>x^(1/quo)\<close>, \<open>quo = ramification / new_ram\<close>: the dictionary
  \<^verbatim>\<open>{e/quo: c[e]}\<close> over the exponents \<open>e\<close> of \<open>c\<close>.
\<close>

definition rescale_items :: "nat \<Rightarrow> nat \<Rightarrow> rat list \<Rightarrow> (nat \<times> rat) list" where
  "rescale_items r new_ram f = map (\<lambda>k. ((k * new_ram) div r, f ! k)) (exponents f)"

definition cgs_init :: "ps list \<Rightarrow> rat list \<Rightarrow> int \<Rightarrow> bool \<Rightarrow> error + cgs" where
  "cgs_init tail0 exp0 ramification make_monic =
     (let p = lstrip tail0 in
      if ramification \<le> 0 then Inl construction_error
      else if p = [] then Inr cgs_zero
      else
        let r = nat ramification;
            e = strip exp0;
            alpha = rat_of_nat (min_valuation p) / rat_of_nat r;
            e1 = (if alpha \<noteq> 0 then poly_add e [alpha] else e);
            p1 = (if alpha \<noteq> 0
                  then map_coefficients (ps_shift_down (nat \<lfloor>rat_of_nat r * alpha\<rfloor>)) p
                  else p);
            new_ram = new_ramification r e1 p1;
            e2 = (if new_ram \<noteq> r then from_dict (rescale_items r new_ram e1) else e1);
            p2 = (if new_ram \<noteq> r
                  then lstrip (map (\<lambda>c. ps_from_dict (rescale_items r new_ram (ps_poly c))) p1)
                  else p1);
            p3 = (if make_monic then lp_make_monic p2 else p2)
        in Inr \<lparr>c_ramification = new_ram, c_exp = e2, c_tail = p3\<rparr>)"

subsection \<open>Arithmetic\<close>

definition ramification :: "cgs \<Rightarrow> nat" where
  "ramification A = c_ramification A"

definition is_zero :: "cgs \<Rightarrow> bool" where
  "is_zero A = (c_tail A = [])"

text \<open>
  \<^verbatim>\<open>__inflate(s)\<close> writes the exponential part and the tail at the ramification \<open>s\<close>, a
  positive multiple of the ramification of the series.
\<close>

definition inflate :: "cgs \<Rightarrow> nat \<Rightarrow> error + (rat list \<times> ps list)" where
  "inflate A s =
     (let r = ramification A in
      if s = r then Inr (c_exp A, c_tail A)
      else if \<not> r dvd s \<or> s = 0
      then Inl (ValueError ''s must be a positive integer multiple of the ramification'')
      else let quo = s div r
           in Inr (poly_subst_pow quo (c_exp A),
                   map_coefficients (ps_subst_pow quo) (c_tail A)))"

definition cgs_eq :: "cgs \<Rightarrow> cgs \<Rightarrow> bool" where
  "cgs_eq A B = (c_ramification A = c_ramification B \<and> c_exp A = c_exp B
                 \<and> lp_eq (c_tail A) (c_tail B))"

definition mul :: "cgs \<Rightarrow> cgs \<Rightarrow> error + cgs" where
  "mul A B =
     (let s = lcm (ramification A) (ramification B) in
      case inflate A s of Inl err \<Rightarrow> Inl err | Inr (Ae, At) \<Rightarrow>
      case inflate B s of Inl err \<Rightarrow> Inl err | Inr (Be, Bt) \<Rightarrow>
        cgs_init (lp_mul At Bt) (poly_add Ae Be) (int s) False)"

definition neg :: "cgs \<Rightarrow> error + cgs" where
  "neg A = cgs_init (lp_neg (c_tail A)) (c_exp A) (int (ramification A)) False"

definition similar :: "cgs \<Rightarrow> cgs \<Rightarrow> error + bool" where
  "similar A B =
     (let s = lcm (ramification A) (ramification B) in
      case inflate A s of Inl err \<Rightarrow> Inl err | Inr (Ae, At) \<Rightarrow>
      case inflate B s of Inl err \<Rightarrow> Inl err | Inr (Be, Bt) \<Rightarrow>
        Inr (in_ZZ (poly_scale (rat_of_nat s) (poly_sub Ae Be))))"

definition x_pow :: "nat \<Rightarrow> ps" where
  "x_pow d = \<lparr>ps_poly = replicate d 0 @ [1], ps_prec = \<infinity>\<rparr>"

definition add :: "cgs \<Rightarrow> cgs \<Rightarrow> error + cgs" where
  "add A B =
     (if is_zero A then Inr B
      else if is_zero B then Inr A
      else case similar A B of Inl err \<Rightarrow> Inl err | Inr sim \<Rightarrow>
        if \<not> sim then Inl incompatibility_error
        else
          let s = lcm (ramification A) (ramification B) in
          case inflate A s of Inl err \<Rightarrow> Inl err | Inr (Ae, At) \<Rightarrow>
          case inflate B s of Inl err \<Rightarrow> Inl err | Inr (Be, Bt) \<Rightarrow>
            let exp_diff = \<lfloor>coeff (poly_scale (rat_of_nat s) (poly_sub Ae Be)) 0\<rfloor>;
                (Ae', At', Be', Bt', d) =
                   (if exp_diff < 0 then (Be, Bt, Ae, At, - exp_diff)
                    else (Ae, At, Be, Bt, exp_diff))
            in cgs_init (lp_add (map (ps_mul (x_pow (nat d))) At') Bt') Be' (int s) False)"

text \<open>
  \<^verbatim>\<open>has_logarithms\<close> evaluates \<^verbatim>\<open>self.__tail.degree() > 0\<close> and falls off the end of
  its body: it returns \<^verbatim>\<open>None\<close>, modelled by the value \<open>None\<close>, whatever the comparison
  gives.  A condition on \<^verbatim>\<open>None\<close> is false.
\<close>

definition has_logarithms :: "cgs \<Rightarrow> bool option" where
  "has_logarithms A = (let _ = (degree (c_tail A) > 0) in None)"

definition truthy :: "bool option \<Rightarrow> bool" where
  "truthy v = (case v of None \<Rightarrow> False | Some b \<Rightarrow> b)"

definition invert :: "cgs \<Rightarrow> error + cgs" where
  "invert A =
     (if is_zero A then Inl ZeroDivisionError
      else if truthy (has_logarithms A) then Inl non_invertible_error
      else case lp_inverse (c_tail A) of Inl err \<Rightarrow> Inl err | Inr t \<Rightarrow>
             cgs_init t (poly_neg (c_exp A)) (int (ramification A)) False)"

subsection \<open>Accessors\<close>

definition exponential_part :: "cgs \<Rightarrow> error + cgs" where
  "exponential_part A = cgs_init [ps_one] (c_exp A) (int (ramification A)) False"

definition has_exponential_part :: "cgs \<Rightarrow> error + bool" where
  "has_exponential_part A =
     (case exponential_part A of Inl err \<Rightarrow> Inl err | Inr E \<Rightarrow> Inr (\<not> is_zero E))"

definition tail :: "cgs \<Rightarrow> error + cgs" where
  "tail A = cgs_init (c_tail A) [] (int (ramification A)) False"

definition order :: "cgs \<Rightarrow> rat option" where
  "order A = (if is_zero A then None else Some (coeff (c_exp A) 0))"

definition prec_c :: "cgs \<Rightarrow> enat" where
  "prec_c A = (if c_tail A = [] then \<infinity> else min_list (map ps_prec (coefficients (c_tail A))))"

text \<open>
  \<^verbatim>\<open>substitute(e)\<close> replaces \<open>x\<close> by \<open>x^e\<close> for a positive rational \<open>e = a/b\<close>.
\<close>

definition substitute :: "cgs \<Rightarrow> rat \<Rightarrow> error + cgs" where
  "substitute A e =
     (if e \<le> 0 then Inl (TypeError ''exponent must be a rational number'')
      else if e = 1 then Inr A
      else
        let (a, b) = quotient_of e;
            exp' = poly_scale e (poly_subst_pow (nat a) (c_exp A));
            tail' = map_coefficients (ps_subst_pow (nat a)) (lp_scale_var e (c_tail A))
        in cgs_init tail' exp' (b * int (ramification A)) False)"


section \<open>Discrete generalized series\<close>

text \<open>
  An object of \<^verbatim>\<open>DiscreteGeneralizedSeries\<close> holds \<^verbatim>\<open>__gamma\<close>, \<^verbatim>\<open>__ramification\<close>,
  \<^verbatim>\<open>__rho\<close>, \<^verbatim>\<open>__subexp\<close>, \<^verbatim>\<open>__alpha\<close> and \<^verbatim>\<open>__expansion\<close>.
\<close>

record dgs =
  d_gamma :: rat
  d_ramification :: nat
  d_rho :: rat
  d_subexp :: "rat list"
  d_alpha :: rat
  d_expansion :: "ps list"

definition dgs_zero :: dgs where
  "dgs_zero = \<lparr>d_gamma = 0, d_ramification = 1, d_rho = 0, d_subexp = [], d_alpha = 0,
               d_expansion = []\<rparr>"

definition rat_denominator :: "rat \<Rightarrow> nat" where
  "rat_denominator q = nat (snd (quotient_of q))"

definition rat_numerator :: "rat \<Rightarrow> int" where
  "rat_numerator q = fst (quotient_of q)"

definition is_integer :: "rat \<Rightarrow> bool" where
  "is_integer q = (q = of_int \<lfloor>q\<rfloor>)"

subsection \<open>The normalizing constructor\<close>

text \<open>
  The constructor on the list \<^verbatim>\<open>[gamma, ram, rho, subexp, alpha, expansion]\<close>.  The
  test \<^verbatim>\<open>rho.is_zero() or ram <= 0\<close> comes before the expansion is looked at.  When the
  computed ramification is smaller than the given one, the exponents are rescaled; the
  field \<^verbatim>\<open>__ramification\<close> is not assigned again.
\<close>

definition d_min_valuation :: "ps list \<Rightarrow> nat" where
  "d_min_valuation t = (case min_list (map ps_valuation t) of enat n \<Rightarrow> n | \<infinity> \<Rightarrow> 0)"

definition d_new_ramification :: "rat \<Rightarrow> nat \<Rightarrow> rat list \<Rightarrow> ps list \<Rightarrow> nat" where
  "d_new_ramification gamma ram subexp expansion =
     (let new_ram = rat_denominator gamma;
          new_ram = lcm_list (new_ram # map (\<lambda>k. den_frac k ram) (exponents subexp))
      in fold (\<lambda>c nr. lcm_list (nr # map (\<lambda>k. den_frac k ram) (ps_exponents c)))
              (coefficients expansion) new_ram)"

definition dgs_init ::
  "rat \<times> int \<times> rat \<times> rat list \<times> rat \<times> ps list \<Rightarrow> bool \<Rightarrow> error + dgs" where
  "dgs_init data make_monic =
     (case data of (gamma, ram, rho, subexp0, alpha, expansion0) \<Rightarrow>
      if rho = 0 \<or> ram \<le> 0 then Inl (ValueError [])
      else
        let expansion = lstrip expansion0; subexp = strip subexp0; r = nat ram in
        if expansion = [] then Inr dgs_zero
        else
          let diff = d_min_valuation expansion;
              alpha1 = (if diff \<noteq> 0 then alpha - rat_of_nat diff / rat_of_nat r else alpha);
              ex1 = (if diff \<noteq> 0 then map_coefficients (ps_shift_down diff) expansion
                     else expansion);
              new_ram = d_new_ramification gamma r subexp ex1;
              subexp2 = (if new_ram < r then from_dict (rescale_items r new_ram subexp)
                         else subexp);
              ex2 = (if new_ram < r
                     then lstrip (map (\<lambda>c. ps_from_dict (rescale_items r new_ram (ps_poly c))) ex1)
                     else ex1);
              ex3 = (if make_monic then lp_make_monic ex2 else ex2)
          in Inr \<lparr>d_gamma = gamma, d_ramification = r, d_rho = rho, d_subexp = subexp2,
                  d_alpha = alpha1, d_expansion = ex3\<rparr>)"

text \<open>
  The constructor on a polynomial of the exponential ring (in particular on the
  constants \<open>0\<close> and \<open>1\<close>, which give the zero and the one of the domain).
\<close>

definition dgs_of_poly :: "rat list \<Rightarrow> error + dgs" where
  "dgs_of_poly data0 =
     (let data = strip data0 in
      if data = [] then dgs_init (0, 1, 1, [], 0, []) False
      else dgs_init (0, 1, 1, [], of_int (degree data),
                     [\<lparr>ps_poly = strip (rev data), ps_prec = \<infinity>\<rparr>]) False)"

subsection \<open>Arithmetic\<close>

definition d_is_zero :: "dgs \<Rightarrow> bool" where
  "d_is_zero A = (d_expansion A = [])"

definition d_has_logarithms :: "dgs \<Rightarrow> bool" where
  "d_has_logarithms A = (degree (d_expansion A) > 0)"

definition d_inflate :: "dgs \<Rightarrow> nat \<Rightarrow> rat list \<times> ps list" where
  "d_inflate A s =
     (if s = d_ramification A then (d_subexp A, d_expansion A)
      else let quo = s div d_ramification A
           in (poly_subst_pow quo (d_subexp A),
               map_coefficients (ps_subst_pow quo) (d_expansion A)))"

definition d_eq :: "dgs \<Rightarrow> dgs \<Rightarrow> bool" where
  "d_eq A B = (d_gamma A = d_gamma B \<and> d_ramification A = d_ramification B
               \<and> d_rho A = d_rho B \<and> d_subexp A = d_subexp B \<and> d_alpha A = d_alpha B
               \<and> lp_eq (d_expansion A) (d_expansion B))"

definition d_mul :: "dgs \<Rightarrow> dgs \<Rightarrow> error + dgs" where
  "d_mul A B =
     (let ram = lcm (d_ramification A) (d_ramification B);
          (Asub, Aexp) = d_inflate A ram;
          (Bsub, Bexp) = d_inflate B ram
      in dgs_init (d_gamma A + d_gamma B, int ram, d_rho A * d_rho B, poly_add Asub Bsub,
                   d_alpha A + d_alpha B, lp_mul Aexp Bexp) False)"

definition d_neg :: "dgs \<Rightarrow> error + dgs" where
  "d_neg A = dgs_init (d_gamma A, int (d_ramification A), d_rho A, d_subexp A, d_alpha A,
                       lp_neg (d_expansion A)) False"

definition d_similar :: "dgs \<Rightarrow> dgs \<Rightarrow> bool" where
  "d_similar A B =
     (d_gamma A = d_gamma B \<and> d_rho A = d_rho B \<and> d_ramification A = d_ramification B
      \<and> d_subexp A = d_subexp B \<and> is_integer (d_alpha A - d_alpha B))"

definition d_add :: "dgs \<Rightarrow> dgs \<Rightarrow> error + dgs" where
  "d_add A B =
     (if d_is_zero A then Inr B
      else if d_is_zero B then Inr A
      else if \<not> d_similar A B then Inl incompatibility_error
      else
        let ram = lcm (d_ramification A) (d_ramification B);
            (Asub, Aexp) = d_inflate A ram;
            (Bsub, Bexp) = d_inflate B ram;
            alpha = max (d_alpha A) (d_alpha B);
            Aexp' = (if d_alpha A < alpha
                     then map (\<lambda>c. ps_mul c (x_pow (nat \<lfloor>rat_of_nat ram * (alpha - d_alpha A)\<rfloor>)))
                              Aexp
                     else Aexp);
            Bexp' = (if \<not> d_alpha A < alpha \<and> d_alpha B < alpha
                     then map (\<lambda>c. ps_mul c (x_pow (nat \<lfloor>rat_of_nat ram * (alpha - d_alpha B)\<rfloor>)))
                              Bexp
                     else Bexp)
        in dgs_init (d_gamma A, int (d_ramification A), d_rho A, Asub, alpha,
                     lp_add Aexp' Bexp') False)"

definition d_invert :: "dgs \<Rightarrow> error + dgs" where
  "d_invert A =
     (if d_is_zero A then Inl ZeroDivisionError
      else if d_has_logarithms A then Inl non_invertible_error
      else case lp_inverse (d_expansion A) of Inl err \<Rightarrow> Inl err | Inr t \<Rightarrow>
             dgs_init (- d_gamma A, int (d_ramification A), 1 / d_rho A,
                       poly_neg (d_subexp A), - d_alpha A, t) False)"


section \<open>The shift quotient\<close>

definition ebind :: "error + 'a \<Rightarrow> ('a \<Rightarrow> error + 'b) \<Rightarrow> error + 'b" where
  "ebind m f = (case m of Inl err \<Rightarrow> Inl err | Inr v \<Rightarrow> f v)"

text \<open>
  \<^verbatim>\<open>_binomial(lam, j)\<close>: the loop \<^verbatim>\<open>b *= lam/(j - jj); lam -= one\<close> for \<open>jj = 0, \<dots>, j-1\<close>.
\<close>

definition binomial :: "rat \<Rightarrow> nat \<Rightarrow> rat" where
  "binomial lam j =
     fst (fold (\<lambda>jj (b, l). (b * (l / rat_of_nat (j - jj)), l - 1)) [0..<j] (1, lam))"

definition x_to :: "nat \<Rightarrow> rat list" where
  "x_to n = replicate n 0 @ [1]"

text \<open>A power of the generator stays in the polynomial ring for a nonnegative integer
  exponent only.\<close>

definition x_power :: "rat \<Rightarrow> error + rat list" where
  "x_power q =
     (if is_integer q \<and> 0 \<le> q then Inr (x_to (nat \<lfloor>q\<rfloor>))
      else Inl (TypeError ''exponent must be a nonnegative integer''))"

definition poly_sum :: "rat list list \<Rightarrow> rat list" where
  "poly_sum ps = fold (\<lambda>p acc. poly_add acc p) ps []"

definition poly_mod_x :: "nat \<Rightarrow> rat list \<Rightarrow> rat list" where
  "poly_mod_x n p = strip (take n p)"

text \<open>\<open>p.shift(k)\<close>: multiplication by \<open>x^k\<close>, dropping the terms of negative exponent.\<close>

definition poly_shift :: "int \<Rightarrow> rat list \<Rightarrow> rat list" where
  "poly_shift k p = (if p = [] then [] else if 0 \<le> k then replicate (nat k) 0 @ p
                     else drop (nat (- k)) p)"

text \<open>\<open>p.padded_list(n)\<close> reversed, as a polynomial.\<close>

definition padded_rev :: "nat \<Rightarrow> rat list \<Rightarrow> rat list" where
  "padded_rev n p = strip (rev (map (coeff p) [0..<n]))"

text \<open>
  The loop shared by both expansions: \<^verbatim>\<open>outer = inner_pow = 1\<close>, then for
  \<open>k = 1, \<dots>, kmax\<close>: \<^verbatim>\<open>inner_pow = (inner_pow * inner) % n**md\<close> and
  \<^verbatim>\<open>outer += inner_pow / k!\<close>.
\<close>

definition exp_loop :: "rat list \<Rightarrow> nat \<Rightarrow> nat \<Rightarrow> rat list" where
  "exp_loop inner md kmax =
     fst (fold (\<lambda>k (outer, inner_pow).
                  let ip = poly_mod_x md (poly_mul inner_pow inner)
                  in (poly_add outer (poly_scale (1 / rat_of_nat (fact k)) ip), ip))
               [1..<Suc kmax] ([1], [1]))"

definition super_expansion :: "rat \<Rightarrow> int \<Rightarrow> nat \<Rightarrow> rat list" where
  "super_expansion gamma i prec =
     (let inner = poly_scale (gamma * rat_of_int i)
                    (poly_sum (map (\<lambda>l. poly_scale ((- rat_of_int i) ^ l / rat_of_nat (l + 1))
                                                    (x_to l))
                                   [1..<Suc prec]));
          outer = exp_loop inner (prec + 1) prec
      in padded_rev (prec + 1) outer)"

definition sub_expansion :: "rat list \<times> rat \<Rightarrow> int \<Rightarrow> nat \<Rightarrow> error + rat list" where
  "sub_expansion cm i prec =
     (case cm of (coeffs, m) \<Rightarrow>
      let vq = m * rat_of_nat (length coeffs + 1) in
      if \<not> is_integer vq \<or> vq < rat_of_nat (length coeffs)
      then Inl (TypeError ''exponent must be a nonnegative integer'')
      else
        let v = nat \<lfloor>vq\<rfloor>;
            md = v * prec + 1;
            prod = fold (\<lambda>l prod.
                     let inner = poly_scale (coeffs ! (l - 1))
                                   (poly_sum (map (\<lambda>j. poly_scale
                                                (binomial (rat_of_nat l / rat_of_nat v) j
                                                  * rat_of_int i ^ j)
                                                (x_to (v * j - l)))
                                              [1..<Suc prec]));
                         outer = exp_loop inner md (v * prec)
                     in poly_mod_x md (poly_mul prod outer))
                   [1..<Suc (length coeffs)] [1]
        in Inr (padded_rev md prod))"

text \<open>
  \<^verbatim>\<open>_generalized_series_shift_quotient(x, prec, shift, gamma, rho, subexp, alpha)\<close>, the
  polynomials being in the generator \<open>x\<close>.
\<close>

definition shift_quotient ::
  "int \<Rightarrow> int \<Rightarrow> rat \<Rightarrow> rat \<Rightarrow> (rat list \<times> rat) option \<Rightarrow> rat \<Rightarrow> error + rat list" where
  "shift_quotient prec shift gamma rho subexp alpha =
     (let ram = rat_of_nat (rat_denominator gamma)
                  * (case subexp of None \<Rightarrow> 1 | Some cm \<Rightarrow> snd cm) in
      if shift = 0 then x_power (ram * rat_of_int prec)
      else if shift < 0 then Inl domain_error
      else
        ebind
          (if gamma \<noteq> 0 then
             let v = rat_denominator gamma; n = rat_of_int prec + rat_of_int shift * gamma in
             if n < 0 then Inl precision_error
             else if \<not> is_integer n then Inl (TypeError ''integer argument expected'')
             else
               let cert = poly_sum (map (\<lambda>k. poly_scale
                                          (binomial (rat_of_int shift * gamma) k
                                            * rat_of_int shift ^ k)
                                          (x_to (v * (nat \<lfloor>n\<rfloor> - k))))
                                        [0..<nat \<lfloor>n\<rfloor> + 1])
               in Inr (poly_shift (- (int v * prec))
                        (poly_mul cert
                           (poly_subst_pow v (super_expansion gamma shift (nat prec)))))
           else x_power (rat_of_int prec))
          (\<lambda>cert.
            let cert1 = (if rho \<noteq> 1 then poly_scale (rho ^ nat shift) cert else cert) in
            if \<not> is_integer (ram * rat_of_int prec)
            then Inl (TypeError ''exponent must be a nonnegative integer'')
            else
              let rp = \<lfloor>ram * rat_of_int prec\<rfloor> in
              ebind
                (case subexp of
                   None \<Rightarrow> Inr cert1
                 | Some cm \<Rightarrow>
                     if list_all (\<lambda>c. c = 0) (fst cm) then Inr cert1
                     else ebind (sub_expansion cm shift (nat prec))
                            (\<lambda>se. Inr (poly_shift (- rp) (poly_mul cert1 se))))
                (\<lambda>cert2.
                  if alpha \<noteq> 0 then
                    if \<not> is_integer ram
                    then Inl (TypeError ''exponent must be a nonnegative integer'')
                    else Inr (poly_shift (- rp)
                           (poly_mul cert2
                              (poly_sum (map (\<lambda>k. poly_scale
                                               (binomial alpha k * rat_of_int shift ^ k)
                                               (x_to (nat \<lfloor>ram\<rfloor> * (nat prec - k))))
                                             [0..<nat prec + 1]))))
                  else Inr cert2)))"

subsection \<open>The shift of a discrete series\<close>

definition poly_compose :: "rat list \<Rightarrow> rat list \<Rightarrow> rat list" where
  "poly_compose f y = foldr (\<lambda>c acc. poly_add (poly_mul acc y) [c]) f []"

definition lp_compose :: "ps list \<Rightarrow> ps list \<Rightarrow> ps list" where
  "lp_compose t y = foldr (\<lambda>c acc. lp_add (lp_mul acc y) [c]) t []"

text \<open>
  \<^verbatim>\<open>shift(i)\<close>.  The zero series is returned at once.  The list comprehension
  \<^verbatim>\<open>[subexp[i] for i in xrange(1, max(subexp.degree(), gamma.denominator()))]\<close> has the
  method's argument \<open>i\<close> as its variable, and a comprehension variable of Python 2 stays
  bound after the comprehension: when the range is not empty, \<open>i\<close> is its last element
  from there on.  With an infinite working precision the engine still rejects a negative
  shift first; every other path then fails in the host system.
\<close>

definition shift :: "dgs \<Rightarrow> int \<Rightarrow> error + dgs" where
  "shift A i0 =
     (if d_is_zero A then Inr A
      else
        let prec = min_list (map ps_prec (coefficients (d_expansion A)));
            n = max (degree (d_subexp A)) (int (rat_denominator (d_gamma A)));
            subexp = map (coeff (d_subexp A)) [1..<nat n];
            i = (if 1 < n then n - 1 else i0);
            ram = d_ramification A;
            m = rat_of_nat ram / rat_of_nat (rat_denominator (d_gamma A))
        in case prec of
             \<infinity> \<Rightarrow> if i < 0 then Inl domain_error
                   else Inl (TypeError ''exponent must be a nonnegative integer'')
           | enat pr \<Rightarrow>
               ebind (shift_quotient (int pr) i (d_gamma A) (d_rho A) (Some (subexp, m))
                        (d_alpha A))
                 (\<lambda>cert.
                   let factor = strip (rev cert);
                       x_shifted = poly_mul [0, 1]
                          (poly_sum (map (\<lambda>k. poly_scale
                                            (binomial (- (1 / rat_of_nat ram)) k
                                              * rat_of_int i ^ k)
                                            (x_to (ram * k)))
                                         [0..<pr + 1]));
                       expansion = map_coefficients
                          (\<lambda>p. ps_make (poly_mul factor (poly_compose (ps_poly p) x_shifted))
                                        (enat pr))
                          (d_expansion A);
                       logx_shifted = poly_neg
                          (poly_sum (map (\<lambda>k. poly_scale ((- rat_of_int i) ^ k / rat_of_nat k)
                                                          (x_to (ram * k)))
                                         [1..<pr + 1]));
                       expansion' = lp_compose expansion
                          [\<lparr>ps_poly = logx_shifted, ps_prec = \<infinity>\<rparr>, ps_one]
                   in dgs_init (d_gamma A, int ram, d_rho A, d_subexp A, d_alpha A,
                                expansion') False))"


section \<open>Invariants and example series\<close>

text \<open>
  The zero series is canonical: every constructor stores it with the same fields.
\<close>

definition canonical_zero :: "cgs \<Rightarrow> bool" where
  "canonical_zero A = (is_zero A \<longrightarrow> A = cgs_zero)"

definition d_canonical_zero :: "dgs \<Rightarrow> bool" where
  "d_canonical_zero A = (d_is_zero A \<longrightarrow> A = dgs_zero)"

text \<open>
  A power series of the host system holds a normalised polynomial, cut at its precision.
\<close>

definition ps_wf :: "ps \<Rightarrow> bool" where
  "ps_wf c = (strip (ps_poly c) = ps_poly c
              \<and> (case ps_prec c of enat n \<Rightarrow> length (ps_poly c) \<le> n | \<infinity> \<Rightarrow> True))"

text \<open>
  The invariant of a continuous series, as the documentation of the domain states it:
  the ramification is positive; the tail is a normalised polynomial in \<open>LOG\<close>; the
  zero series has exponential part 0 and ramification 1; in a nonzero series some
  coefficient of the tail has valuation 0, and the ramification is the one the
  constructor computes from the exponents.
\<close>

definition cgs_invariant :: "cgs \<Rightarrow> bool" where
  "cgs_invariant A =
     (0 < c_ramification A \<and> strip (c_exp A) = c_exp A \<and> lstrip (c_tail A) = c_tail A
      \<and> list_all ps_wf (c_tail A)
      \<and> (if c_tail A = [] then c_exp A = [] \<and> c_ramification A = 1
         else min_valuation (c_tail A) = 0
              \<and> new_ramification (c_ramification A) (c_exp A) (c_tail A) = c_ramification A))"

text \<open>\<open>exp(-2 x^(-1/2)) (1 + x^(2/2) + O(x^(4/2)))\<close>: ramification 2, exponential part
  \<open>x\<close>, tail \<open>1 + x^2 + O(x^4)\<close>; and the same series with the exact tail
  \<open>1 + x^2\<close>.\<close>

definition truncated_series :: cgs where
  "truncated_series = \<lparr>c_ramification = 2, c_exp = [0, 1],
                        c_tail = [\<lparr>ps_poly = [1, 0, 1], ps_prec = 4\<rparr>]\<rparr>"

definition exact_series :: cgs where
  "exact_series = \<lparr>c_ramification = 2, c_exp = [0, 1],
                    c_tail = [\<lparr>ps_poly = [1, 0, 1], ps_prec = \<infinity>\<rparr>]\<rparr>"

text \<open>The series \<open>log(x)\<close>, built from the tail \<open>LOG\<close>.\<close>

definition log_series :: cgs where
  "log_series = \<lparr>c_ramification = 1, c_exp = [], c_tail = [ps_zero, ps_one]\<rparr>"

text \<open>The exact power series \<open>1 + x + x^2\<close> and the series with this tail, no
  exponential part and ramification \<open>r\<close>.\<close>

definition poly_1xx2 :: ps where
  "poly_1xx2 = \<lparr>ps_poly = [1, 1, 1], ps_prec = \<infinity>\<rparr>"

definition series_1xx2 :: "nat \<Rightarrow> cgs" where
  "series_1xx2 r = \<lparr>c_ramification = r, c_exp = [], c_tail = [poly_1xx2]\<rparr>"

text \<open>\<open>x^(1/2) (1 + x + x^2)\<close>, at ramification 1.\<close>

definition sqrt_series :: cgs where
  "sqrt_series = \<lparr>c_ramification = 1, c_exp = [1 / 2], c_tail = [poly_1xx2]\<rparr>"

text \<open>The one of the discrete domain, the sequences \<open>2^n\<close> and \<open>n (1 + O(n^-3))\<close>.\<close>

definition d_one :: dgs where
  "d_one = \<lparr>d_gamma = 0, d_ramification = 1, d_rho = 1, d_subexp = [], d_alpha = 0,
             d_expansion = [ps_one]\<rparr>"

definition two_pow_series :: dgs where
  "two_pow_series = \<lparr>d_gamma = 0, d_ramification = 1, d_rho = 2, d_subexp = [], d_alpha = 0,
                      d_expansion = [ps_one]\<rparr>"

definition n_series :: dgs where
  "n_series = \<lparr>d_gamma = 0, d_ramification = 1, d_rho = 1, d_subexp = [], d_alpha = 1,
                d_expansion = [\<lparr>ps_poly = [1], ps_prec = 3\<rparr>]\<rparr>"

section \<open>Properties\<close>

subsection \<open>Supporting lemmas\<close>

lemma cgs_init_one_tail:
  "cgs_init [ps_one] e r False = Inr X \<Longrightarrow> c_tail X = [ps_one]"
  by (auto simp: cgs_init_def Let_def ps_one_def min_valuation_def coefficients_def ps_nonzero_def
       low_zeros_def rescale_items_def exponents_def from_dict_def ps_from_dict_def
       split: if_splits)

lemma log_series_constructed: "cgs_init [ps_zero, ps_one] [] 1 False = Inr log_series"
  by code_simp

lemma series_1xx2_constructed: "cgs_init [poly_1xx2] [] 1 False = Inr (series_1xx2 1)"
  by code_simp

lemma discrete_one_zero_constructed:
  "dgs_of_poly [1] = Inr d_one \<and> dgs_of_poly [] = Inr dgs_zero"
  by code_simp

subsection \<open>Inversion of a continuous series\<close>

text \<open>
  Claim C1.  \<open>invert\<close> raises \<open>ZeroDivisionError\<close> on the zero series, and its second
  branch is there to raise the non-invertible error on a series with logarithms.  That
  branch tests \<open>has_logarithms\<close>, which returns \<open>None\<close>: the branch is never taken and
  \<open>invert\<close> never raises the non-invertible error.  On the series \<open>log(x)\<close>, whose tail
  has degree 1 in \<open>LOG\<close>, it goes on to invert the tail and fails there with another
  error.
\<close>

theorem invert_never_non_invertible_error:
  "invert A \<noteq> Inl non_invertible_error
   \<and> invert cgs_zero = Inl ZeroDivisionError
   \<and> 0 < degree (c_tail log_series)
   \<and> invert log_series = Inl (TypeError ''denominator must be a unit'')"
proof -
  have "invert A \<noteq> Inl non_invertible_error"
    by (auto simp: invert_def has_logarithms_def truthy_def lp_inverse_def cgs_init_def Let_def
         non_invertible_error_def construction_error_def
         split: list.splits sum.splits if_splits)
  moreover have "invert cgs_zero = Inl ZeroDivisionError"
    by (simp add: invert_def is_zero_def cgs_zero_def)
  moreover have "0 < degree (c_tail log_series)"
    by (simp add: degree_def log_series_def)
  moreover have "invert log_series = Inl (TypeError ''denominator must be a unit'')"
    by code_simp
  ultimately show ?thesis by blast
qed

subsection \<open>The accessor \<open>has_logarithms\<close>\<close>

text \<open>
  Claim C2.  The accessor is to return whether the tail has a positive degree in \<open>LOG\<close>.
  The continuous \<open>has_logarithms\<close> returns \<open>None\<close> for every series, also for \<open>log(x)\<close>,
  whose tail has degree 1; the discrete \<open>d_has_logarithms\<close> returns the comparison.
\<close>

theorem has_logarithms_returns_none:
  "has_logarithms A = None
   \<and> 0 < degree (c_tail log_series) \<and> \<not> truthy (has_logarithms log_series)
   \<and> d_has_logarithms D = (0 < degree (d_expansion D))"
  by (simp add: has_logarithms_def truthy_def degree_def log_series_def d_has_logarithms_def)

subsection \<open>The accessor \<open>has_exponential_part\<close>\<close>

text \<open>
  Claim C3.  The accessor is to tell whether the exponential part is nonzero.
  \<open>has_exponential_part\<close> builds the series \<open>exponential_part\<close>, whose tail is 1, and
  asks whether that series is zero: it never is, so the answer is never \<open>False\<close>.  For
  the series \<open>1 + x + x^2\<close>, whose exponential part is the zero polynomial, it is
  \<open>True\<close>.
\<close>

theorem has_exponential_part_never_false:
  "has_exponential_part A \<noteq> Inr False
   \<and> c_exp (series_1xx2 1) = []
   \<and> has_exponential_part (series_1xx2 1) = Inr True"
proof -
  have "has_exponential_part A \<noteq> Inr False"
    by (auto simp: has_exponential_part_def exponential_part_def is_zero_def
          dest: cgs_init_one_tail split: sum.splits)
  moreover have "c_exp (series_1xx2 1) = []"
    by (simp add: series_1xx2_def)
  moreover have "has_exponential_part (series_1xx2 1) = Inr True"
    by code_simp
  ultimately show ?thesis by blast
qed

subsection \<open>Addition\<close>

text \<open>
  Claim C4.  For series \<open>A\<close>, \<open>B\<close> of the continuous domain and \<open>C\<close>, \<open>D\<close> of the
  discrete domain: the sum is the second operand when the first is zero and the first
  operand when the second is zero; when both are nonzero and not similar, the sum fails
  with the incompatibility error.
\<close>

theorem add_zero_and_dissimilar:
  assumes "canonical_zero A" and "canonical_zero B"
      and "d_canonical_zero C" and "d_canonical_zero D"
  shows "(is_zero A \<longrightarrow> add A B = Inr B) \<and> (is_zero B \<longrightarrow> add A B = Inr A)
       \<and> (\<not> is_zero A \<and> \<not> is_zero B \<and> similar A B = Inr False
            \<longrightarrow> add A B = Inl incompatibility_error)
       \<and> (d_is_zero C \<longrightarrow> d_add C D = Inr D) \<and> (d_is_zero D \<longrightarrow> d_add C D = Inr C)
       \<and> (\<not> d_is_zero C \<and> \<not> d_is_zero D \<and> \<not> d_similar C D
            \<longrightarrow> d_add C D = Inl incompatibility_error)"
  using assms by (auto simp: add_def d_add_def canonical_zero_def d_canonical_zero_def)

theorem add_zero_and_dissimilar_witness:
  "add cgs_zero (series_1xx2 1) = Inr (series_1xx2 1)
   \<and> add (series_1xx2 1) cgs_zero = Inr (series_1xx2 1)
   \<and> add (series_1xx2 1) sqrt_series = Inl incompatibility_error
   \<and> d_add dgs_zero d_one = Inr d_one
   \<and> d_add d_one dgs_zero = Inr d_one
   \<and> d_add d_one two_pow_series = Inl incompatibility_error"
proof -
  have cz: "canonical_zero cgs_zero" "canonical_zero (series_1xx2 1)"
           "canonical_zero sqrt_series"
    by (simp_all add: canonical_zero_def is_zero_def series_1xx2_def sqrt_series_def)
  have dz: "d_canonical_zero dgs_zero" "d_canonical_zero d_one"
           "d_canonical_zero two_pow_series"
    by (simp_all add: d_canonical_zero_def d_is_zero_def d_one_def two_pow_series_def)
  have z: "is_zero cgs_zero" "\<not> is_zero (series_1xx2 1)" "\<not> is_zero sqrt_series"
    by (simp_all add: is_zero_def cgs_zero_def series_1xx2_def sqrt_series_def)
  have dzz: "d_is_zero dgs_zero" "\<not> d_is_zero d_one" "\<not> d_is_zero two_pow_series"
    by (simp_all add: d_is_zero_def dgs_zero_def d_one_def two_pow_series_def)
  have ns: "similar (series_1xx2 1) sqrt_series = Inr False"
    by code_simp
  have dns: "\<not> d_similar d_one two_pow_series"
    by (simp add: d_similar_def d_one_def two_pow_series_def)
  from add_zero_and_dissimilar [OF cz(1) cz(2) dz(1) dz(2)] z dzz
  have a: "add cgs_zero (series_1xx2 1) = Inr (series_1xx2 1)"
          "d_add dgs_zero d_one = Inr d_one"
    by blast+
  from add_zero_and_dissimilar [OF cz(2) cz(1) dz(2) dz(1)] z dzz
  have b: "add (series_1xx2 1) cgs_zero = Inr (series_1xx2 1)"
          "d_add d_one dgs_zero = Inr d_one"
    by blast+
  from add_zero_and_dissimilar [OF cz(2) cz(3) dz(2) dz(3)] z dzz ns dns
  have c: "add (series_1xx2 1) sqrt_series = Inl incompatibility_error"
          "d_add d_one two_pow_series = Inl incompatibility_error"
    by blast+
  from a b c show ?thesis by blast
qed

subsection \<open>Shift of a discrete series\<close>

text \<open>
  Claim C5, as stated: \<open>shift\<close> fails with the domain error for every discrete series
  and every negative integer.  It does not for the zero series, which \<open>shift\<close> returns
  before it looks at the integer.
\<close>

theorem shift_negative_zero_series:
  "shift dgs_zero (- 1) = Inr dgs_zero \<and> shift dgs_zero (- 1) \<noteq> Inl domain_error"
  by (simp add: shift_def d_is_zero_def dgs_zero_def)

text \<open>
  Claim C5, amended.  For a nonzero discrete series whose subexponential part has
  degree at most 1 and whose superexponential rate \<open>gamma\<close> is an integer (the list
  comprehension of \<open>shift\<close> then runs over an empty range), \<open>shift\<close> fails with the domain
  error on every negative integer.  The shift quotient with \<open>gamma \<noteq> 0\<close> and a positive
  shift \<open>j\<close> fails with the precision error whenever \<open>p + j * gamma < 0\<close>.
\<close>

theorem shift_negative_and_precision:
  "(\<not> d_is_zero A \<and> max (degree (d_subexp A)) (int (rat_denominator (d_gamma A))) \<le> 1 \<and> i < 0
      \<longrightarrow> shift A i = Inl domain_error)
   \<and> (gamma \<noteq> 0 \<and> 0 < j \<and> rat_of_int p + rat_of_int j * gamma < 0
      \<longrightarrow> shift_quotient p j gamma rho se alpha = Inl precision_error)"
  by (auto simp: shift_def shift_quotient_def Let_def ebind_def split: enat.splits)

theorem shift_negative_and_precision_witness:
  "shift n_series (- 1) = Inl domain_error
   \<and> shift_quotient 3 2 (- 2) 1 (Some ([], 1)) 0 = Inl precision_error"
proof -
  have h1: "\<not> d_is_zero n_series
            \<and> max (degree (d_subexp n_series)) (int (rat_denominator (d_gamma n_series))) \<le> 1
            \<and> (- 1 :: int) < 0"
    by (simp add: d_is_zero_def n_series_def degree_def rat_denominator_def)
  have h2: "(- 2 :: rat) \<noteq> 0 \<and> (0 :: int) < 2 \<and> rat_of_int 3 + rat_of_int 2 * (- 2) < 0"
    by simp
  from shift_negative_and_precision [of n_series "- 1" "- 2" 2 3 1 "Some ([], 1)" 0] h1 h2
  show ?thesis by blast
qed

text \<open>
  Claim C9.  The zero discrete series is a fixed point of \<open>shift\<close> for every integer,
  negative ones included: no error is raised.
\<close>

theorem shift_zero_fixed_point: "d_is_zero Z \<Longrightarrow> shift Z i = Inr Z"
  by (simp add: shift_def)

theorem shift_zero_fixed_point_witness:
  "d_is_zero dgs_zero \<and> shift dgs_zero (- 7) = Inr dgs_zero"
proof -
  have h: "d_is_zero dgs_zero" by (simp add: d_is_zero_def dgs_zero_def)
  from shift_zero_fixed_point [OF h, of "- 7"] h show ?thesis by blast
qed

subsection \<open>One and zero\<close>

text \<open>
  Claim C7.  In the discrete domain the product of the one with the zero is not the
  zero: the constructor receives \<open>rho = 1 * 0\<close> and raises \<open>ValueError\<close> on a zero
  \<open>rho\<close> before it looks at the expansion.  The same holds for the product of any
  discrete series with the zero, on either side.
\<close>

theorem discrete_mul_zero_raises:
  "dgs_of_poly [1] = Inr d_one \<and> dgs_of_poly [] = Inr dgs_zero
   \<and> d_mul d_one dgs_zero = Inl (ValueError [])
   \<and> d_mul A dgs_zero = Inl (ValueError [])
   \<and> d_mul dgs_zero A = Inl (ValueError [])"
proof -
  have "d_mul A dgs_zero = Inl (ValueError [])" for A
    by (simp add: d_mul_def dgs_init_def dgs_zero_def split: prod.splits)
  moreover have "d_mul dgs_zero A = Inl (ValueError [])"
    by (simp add: d_mul_def dgs_init_def dgs_zero_def split: prod.splits)
  ultimately show ?thesis using discrete_one_zero_constructed by blast
qed

subsection \<open>Substitution\<close>

text \<open>
  Claim C8.  The series built from the tail \<open>1 + x + x^2\<close>, exponential part 0 and
  ramification 3 has ramification 3, and its substitution by 3 is the series of
  ramification 1 with tail \<open>1 + x + x^2\<close>.
\<close>

theorem substitute_scenario:
  "cgs_init [poly_1xx2] [] 3 False = Inr (series_1xx2 3)
   \<and> ramification (series_1xx2 3) = 3
   \<and> substitute (series_1xx2 3) 3 = Inr (series_1xx2 1)
   \<and> ramification (series_1xx2 1) = 1
   \<and> c_tail (series_1xx2 1) = [poly_1xx2]"
proof -
  have "cgs_init [poly_1xx2] [] 3 False = Inr (series_1xx2 3)" by code_simp
  moreover have "substitute (series_1xx2 3) 3 = Inr (series_1xx2 1)" by code_simp
  ultimately show ?thesis by (simp add: ramification_def series_1xx2_def)
qed

text \<open>
  Claim C10.  Substitution by the exponent 1 returns the series itself.
\<close>

theorem substitute_one_identity: "substitute A 1 = Inr A"
  by (simp add: substitute_def)

end
